theory Spec2Isabelle
  imports Complex_Main
begin

section \<open>JavaScript values\<close>

text \<open>
  The gateway handles plain JavaScript data: the JSON Schema objects that
  \<^verbatim>\<open>z.toJSONSchema\<close> returns, the parsed query of a request and the parsed body of the
  upstream answer. A number is a finite rational or one of the three non-finite doubles
  (\<^verbatim>\<open>JSON.parse("1e999")\<close> is \<^verbatim>\<open>Infinity\<close>); no arithmetic is ever done on one, so
  rounding plays no part. A string is a list of code units below 256. An object is an
  association list in insertion order; JavaScript objects have no duplicate keys, which
  theorems assume as \<open>distinct (map fst kvs)\<close> where it matters.
\<close>

datatype jsnum = Fin rat | PosInf | NegInf | NaN

datatype jsval =
    JUndefined
  | JNull
  | JBool bool
  | JNum jsnum
  | JStr string
  | JArr "jsval list"
  | JObj "(string \<times> jsval) list"

text \<open>\<^verbatim>\<open>obj[key]\<close>: the value of a property, \<^verbatim>\<open>undefined\<close> when the object has none.\<close>

definition js_get :: "(string \<times> jsval) list \<Rightarrow> string \<Rightarrow> jsval" where
  "js_get obj key = (case map_of obj key of None \<Rightarrow> JUndefined | Some v \<Rightarrow> v)"

text \<open>\<^verbatim>\<open>key in obj\<close> for an own property.\<close>

definition js_in :: "string \<Rightarrow> (string \<times> jsval) list \<Rightarrow> bool" where
  "js_in key obj = (map_of obj key \<noteq> None)"

text \<open>
  \<^verbatim>\<open>obj[key] = v\<close>: an existing property keeps its place and takes the new value, a new
  one is appended.
\<close>

primrec js_set :: "string \<Rightarrow> jsval \<Rightarrow> (string \<times> jsval) list \<Rightarrow> (string \<times> jsval) list" where
  "js_set key v [] = [(key, v)]"
| "js_set key v (p # ps) = (if fst p = key then (key, v) # ps else p # js_set key v ps)"

text \<open>Truthiness, as \<^verbatim>\<open>||\<close> and \<^verbatim>\<open>if\<close> test it.\<close>

fun truthy :: "jsval \<Rightarrow> bool" where
  "truthy JUndefined = False"
| "truthy JNull = False"
| "truthy (JBool b) = b"
| "truthy (JNum (Fin x)) = (x \<noteq> 0)"
| "truthy (JNum NaN) = False"
| "truthy (JNum PosInf) = True"
| "truthy (JNum NegInf) = True"
| "truthy (JStr s) = (s \<noteq> [])"
| "truthy (JArr xs) = True"
| "truthy (JObj kvs) = True"

text \<open>\<^verbatim>\<open>a || b\<close>.\<close>

definition js_or :: "jsval \<Rightarrow> jsval \<Rightarrow> jsval" where
  "js_or a b = (if truthy a then a else b)"

section \<open>The schema descriptor converter (\<^verbatim>\<open>src/lib/schema.ts\<close>)\<close>

text \<open>
  \<^verbatim>\<open>z.toJSONSchema\<close> belongs to the Zod library, so the converters are modelled from
  the JSON Schema it returns. Zod types that result as an object whose \<^verbatim>\<open>properties\<close>, when
  present, map each field name to a schema, and a schema is either a boolean or an object
  (\<^verbatim>\<open>_JSONSchema = boolean | JSONSchema\<close>); the test
  \<^verbatim>\<open>typeof value === "object" && value !== null\<close> tells the two apart.
\<close>

datatype field_schema = BoolSchema bool | ObjSchema "(string \<times> jsval) list"

record json_schema =
  properties :: "(string \<times> field_schema) list option"
  other_members :: "(string \<times> jsval) list"

text \<open>\<^verbatim>\<open>"default" in value && value.default !== undefined\<close>\<close>

definition has_default :: "(string \<times> jsval) list \<Rightarrow> bool" where
  "has_default value = (js_in ''default'' value \<and> js_get value ''default'' \<noteq> JUndefined)"

text \<open>
  The loop of \<^verbatim>\<open>inputSchemaToX402GET\<close> over \<^verbatim>\<open>Object.entries(jsonSchema.properties)\<close>,
  with \<^verbatim>\<open>queryParams\<close> as the accumulator. The source stores \<^verbatim>\<open>value\<close> itself under the
  key and then assigns its \<^verbatim>\<open>required\<close> property; the schema object is local to the
  call and the test reads only \<^verbatim>\<open>default\<close>, so the model builds the updated object.
\<close>

fun queryParams_GET ::
  "(string \<times> field_schema) list \<Rightarrow> (string \<times> jsval) list \<Rightarrow> (string \<times> jsval) list" where
  "queryParams_GET [] queryParams = queryParams"
| "queryParams_GET ((key, BoolSchema b) # entries) queryParams =
     queryParams_GET entries queryParams"
| "queryParams_GET ((key, ObjSchema value) # entries) queryParams =
     queryParams_GET entries
       (js_set key
          (JObj (if \<not> has_default value
                 then js_set ''required'' (JBool True) value
                 else js_set ''required'' (JBool False) value))
          queryParams)"

definition inputSchemaToX402GET :: "json_schema \<Rightarrow> (string \<times> jsval) list" where
  "inputSchemaToX402GET jsonSchema =
     [(''type'', JStr ''http''),
      (''method'', JStr ''GET''),
      (''queryParams'',
         JObj (case properties jsonSchema of
                 None \<Rightarrow> []
               | Some props \<Rightarrow> queryParams_GET props []))]"

text \<open>The \<^verbatim>\<open>queryParams\<close> object of a descriptor.\<close>

definition queryParams_of :: "(string \<times> jsval) list \<Rightarrow> (string \<times> jsval) list" where
  "queryParams_of descriptor =
     (case js_get descriptor ''queryParams'' of JObj qp \<Rightarrow> qp | _ \<Rightarrow> [])"

text \<open>
  The build kept beside the sources (\<^verbatim>\<open>inputSchemaToX402\<close>) holds the earlier converter,
  which maps each field to a describing string. Its template literal turns \<^verbatim>\<open>type\<close>
  into a string; how JavaScript prints a number is left as the parameter \<open>num\<close>.
\<close>

fun join_comma :: "string list \<Rightarrow> string" where
  "join_comma [] = []"
| "join_comma [s] = s"
| "join_comma (s # t # ss) = s @ '','' @ join_comma (t # ss)"

fun ToString :: "(jsnum \<Rightarrow> string) \<Rightarrow> jsval \<Rightarrow> string" where
  "ToString num JUndefined = ''undefined''"
| "ToString num JNull = ''null''"
| "ToString num (JBool b) = (if b then ''true'' else ''false'')"
| "ToString num (JNum n) = num n"
| "ToString num (JStr s) = s"
| "ToString num (JArr xs) =
     join_comma (map (\<lambda>x. if x = JUndefined \<or> x = JNull then [] else ToString num x) xs)"
| "ToString num (JObj kvs) = ''[object Object]''"

fun queryParams_legacy ::
  "(jsnum \<Rightarrow> string) \<Rightarrow> (string \<times> field_schema) list \<Rightarrow> (string \<times> jsval) list
     \<Rightarrow> (string \<times> jsval) list" where
  "queryParams_legacy num [] queryParams = queryParams"
| "queryParams_legacy num ((key, BoolSchema b) # entries) queryParams =
     queryParams_legacy num entries queryParams"
| "queryParams_legacy num ((key, ObjSchema prop) # entries) queryParams =
     (let type = js_or (js_get prop ''type'') (JStr ''string'');
          description = js_or (js_get prop ''description'') (JStr [])
      in queryParams_legacy num entries
           (js_set key (js_or description (JStr (ToString num type @ '' parameter'')))
              queryParams))"

definition inputSchemaToX402 :: "(jsnum \<Rightarrow> string) \<Rightarrow> json_schema \<Rightarrow> (string \<times> jsval) list" where
  "inputSchemaToX402 num jsonSchema =
     [(''type'', JStr ''http''),
      (''method'', JStr ''GET''),
      (''queryParams'',
         JObj (case properties jsonSchema of
                 None \<Rightarrow> []
               | Some props \<Rightarrow> queryParams_legacy num props []))]"

text \<open>
  The JSON Schema of the position query \<^verbatim>\<open>inputSchema\<close> and of a shape with a nested
  object, as examples to run the converters on.
\<close>

definition position_query_schema :: json_schema where
  "position_query_schema =
     \<lparr> properties = Some
         [(''fen'', ObjSchema
             [(''type'', JStr ''string''),
              (''description'', JStr ''FEN of the current chess position'')]),
          (''depth'', ObjSchema
             [(''default'', JStr ''10''),
              (''description'', JStr ''depth (1-12), optional, default 10''),
              (''type'', JStr ''string''),
              (''minLength'', JNum (Fin 1)),
              (''maxLength'', JNum (Fin 2))])],
       other_members = [(''type'', JStr ''object'')] \<rparr>"

definition shirt_schema :: json_schema where
  "shirt_schema =
     \<lparr> properties = Some
         [(''region'', ObjSchema [(''default'', JStr []), (''type'', JStr ''string'')]),
          (''quantity'', ObjSchema [(''type'', JStr ''number''), (''default'', JNum (Fin 0))]),
          (''anything'', ObjSchema []),
          (''address_to'', ObjSchema
             [(''type'', JStr ''object''),
              (''properties'', JObj [(''city'', JObj [(''type'', JStr ''string'')])]),
              (''required'', JArr [JStr ''city''])])],
       other_members = [(''type'', JStr ''object'')] \<rparr>"

section \<open>Built-in functions the handler calls\<close>

primrec index_of :: "'a \<Rightarrow> 'a list \<Rightarrow> nat option" where
  "index_of x [] = None"
| "index_of x (y # ys) = (if x = y then Some 0 else map_option Suc (index_of x ys))"

definition digit_value :: "char \<Rightarrow> nat option" where
  "digit_value c =
     (case index_of c ''0123456789abcdef'' of
        Some d \<Rightarrow> Some d
      | None \<Rightarrow> map_option (\<lambda>d. d + 10) (index_of c ''ABCDEF''))"

definition is_radix_digit :: "nat \<Rightarrow> char \<Rightarrow> bool" where
  "is_radix_digit radix c = (case digit_value c of Some d \<Rightarrow> d < radix | None \<Rightarrow> False)"

definition the_digit :: "char \<Rightarrow> nat" where
  "the_digit c = (case digit_value c of Some d \<Rightarrow> d | None \<Rightarrow> 0)"

text \<open>White space that \<^verbatim>\<open>parseInt\<close> skips, among the code units below 256.\<close>

definition is_js_whitespace :: "char \<Rightarrow> bool" where
  "is_js_whitespace c =
     (c \<in> set [CHR 0x09, CHR 0x0A, CHR 0x0B, CHR 0x0C, CHR 0x0D, CHR 0x20, CHR 0xA0])"

text \<open>
  \<^verbatim>\<open>parseInt(string)\<close> without a radix: leading white space is dropped, then a sign,
  then a \<^verbatim>\<open>0x\<close> prefix that selects radix 16; the longest run of digits that follows is
  the number and whatever comes after it is ignored. No digit at all gives \<^verbatim>\<open>NaN\<close>,
  here \<open>None\<close>. The value is exact as long as a double holds it, which covers the
  strings of at most two characters that the handler passes.
\<close>

definition parseInt :: "string \<Rightarrow> int option" where
  "parseInt input =
     (let s = dropWhile is_js_whitespace input;
          negative = (s \<noteq> [] \<and> hd s = CHR ''-'');
          s1 = (if s \<noteq> [] \<and> (hd s = CHR ''+'' \<or> hd s = CHR ''-'') then tl s else s);
          hex = (take 2 s1 = ''0x'' \<or> take 2 s1 = ''0X'');
          radix = (if hex then 16 else 10);
          s2 = (if hex then drop 2 s1 else s1);
          z = takeWhile (is_radix_digit radix) s2
      in if z = [] then None
         else Some ((if negative then - 1 else 1) *
                    int (foldl (\<lambda>acc c. acc * radix + the_digit c) 0 z)))"

text \<open>Decimal printing of an integer, as a template literal prints a whole number.\<close>

definition digit_char :: "nat \<Rightarrow> char" where
  "digit_char n = ''0123456789ABCDEF'' ! (n mod 16)"

function show_nat :: "nat \<Rightarrow> string" where
  "show_nat n = (if n < 10 then [digit_char n] else show_nat (n div 10) @ [digit_char (n mod 10)])"
  by pat_completeness auto
termination
  by (relation "measure id") auto

declare show_nat.simps [simp del]

definition show_int :: "int \<Rightarrow> string" where
  "show_int i = (if i < 0 then CHR ''-'' # show_nat (nat (- i)) else show_nat (nat i))"

text \<open>
  \<^verbatim>\<open>encodeURIComponent\<close>: unreserved characters stay, every other code unit is written
  as the percent-escaped bytes of its UTF-8 encoding.
\<close>

definition uri_unreserved :: "char \<Rightarrow> bool" where
  "uri_unreserved c =
     (c \<in> set (''ABCDEFGHIJKLMNOPQRSTUVWXYZabcdefghijklmnopqrstuvwxyz0123456789-_.!~*()''
               @ [CHR 0x27]))"

definition percent :: "nat \<Rightarrow> string" where
  "percent b = [CHR ''%'', digit_char (b div 16), digit_char b]"

definition encode_unit :: "char \<Rightarrow> string" where
  "encode_unit c =
     (let n = (of_char c :: nat)
      in if uri_unreserved c then [c]
         else if n < 128 then percent n
         else percent (192 + n div 64) @ percent (128 + n mod 64))"

definition encodeURIComponent :: "string \<Rightarrow> string" where
  "encodeURIComponent s = concat (map encode_unit s)"

section \<open>The request and response schemas (\<^verbatim>\<open>src/index.ts\<close>)\<close>

text \<open>
  \<^verbatim>\<open>inputSchema.safeParse(req.query)\<close>: \<^verbatim>\<open>fen\<close> must be a string; \<^verbatim>\<open>depth\<close> is replaced
  by \<^verbatim>\<open>"10"\<close> when undefined and otherwise must be a string of one or two code units.
  \<open>None\<close> stands for \<^verbatim>\<open>success: false\<close>.
\<close>

definition inputSchema_safeParse :: "(string \<times> jsval) list \<Rightarrow> (string \<times> string) option" where
  "inputSchema_safeParse query =
     (case js_get query ''fen'' of
        JStr fen \<Rightarrow>
          (case js_get query ''depth'' of
             JUndefined \<Rightarrow> Some (fen, ''10'')
           | JStr depth \<Rightarrow>
               if 1 \<le> length depth \<and> length depth \<le> 2 then Some (fen, depth) else None
           | _ \<Rightarrow> None)
      | _ \<Rightarrow> None)"

text \<open>\<^verbatim>\<open>z.number()\<close> takes a finite number, \<^verbatim>\<open>z.string()\<close> a string.\<close>

fun is_number :: "jsval \<Rightarrow> bool" where
  "is_number (JNum (Fin x)) = True"
| "is_number v = False"

fun is_string :: "jsval \<Rightarrow> bool" where
  "is_string (JStr s) = True"
| "is_string v = False"

text \<open>
  \<^verbatim>\<open>responseSchema.parse(data)\<close>: the data must be an object, not an array, whose four
  fields check; the result is a new object of these four fields in the order of the schema,
  since \<^verbatim>\<open>z.object\<close> drops the keys it does not know. \<open>None\<close> stands for the thrown
  \<^verbatim>\<open>ZodError\<close>.
\<close>

definition responseSchema_parse :: "jsval \<Rightarrow> jsval option" where
  "responseSchema_parse data =
     (case data of
        JObj kvs \<Rightarrow>
          if js_get kvs ''success'' = JBool True
             \<and> is_number (js_get kvs ''evaluation'')
             \<and> is_string (js_get kvs ''bestmove'')
             \<and> (is_number (js_get kvs ''mate'') \<or> js_get kvs ''mate'' = JNull)
          then Some (JObj [(''success'', js_get kvs ''success''),
                           (''evaluation'', js_get kvs ''evaluation''),
                           (''bestmove'', js_get kvs ''bestmove''),
                           (''mate'', js_get kvs ''mate'')])
          else None
      | _ \<Rightarrow> None)"

section \<open>The upstream client and the \<^verbatim>\<open>/best-move\<close> handler\<close>

text \<open>
  What is thrown: an \<^verbatim>\<open>Error\<close> with its message, or some other value. The upstream is
  the parameter \<open>fetch\<close>: for a URL it rejects or answers with a status, a status text and
  a body that parses as JSON or makes \<^verbatim>\<open>response.json()\<close> throw.
\<close>

datatype exn = ErrorObj string | Thrown jsval

datatype body = JsonBody jsval | NotJson exn

datatype fetch_outcome = Rejects exn | Response nat string body

text \<open>
  The call \<^verbatim>\<open>res.json(body)\<close> of the framework may return, throw before anything is
  written, or throw when the response is already on its way; \<open>json_fault\<close> picks one for
  the n-th call. The last is the case the \<^verbatim>\<open>res.headersSent\<close> test of the handler is
  there for.
\<close>

datatype fault = NoFault | ThrowsBeforeSend exn | ThrowsAfterSend exn

record env =
  fetch :: "string \<Rightarrow> fetch_outcome"
  json_fault :: "nat \<Rightarrow> fault"
  zod_message :: "jsval \<Rightarrow> string"
  JSON_stringify :: "jsval \<Rightarrow> string"

text \<open>
  The response object: the status set so far, whether headers went out, the responses
  written (status and JSON payload), the number of \<^verbatim>\<open>res.json\<close> calls, and how many of
  them came when a response had already been sent.
\<close>

record res =
  statusCode :: nat
  headersSent :: bool
  sent :: "(nat \<times> jsval) list"
  jsonCalls :: nat
  lateWrites :: nat

definition new_res :: res where
  "new_res = \<lparr> statusCode = 200, headersSent = False, sent = [], jsonCalls = 0, lateWrites = 0 \<rparr>"

definition res_status :: "nat \<Rightarrow> res \<Rightarrow> res" where
  "res_status code r = r\<lparr> statusCode := code \<rparr>"

definition res_json :: "env \<Rightarrow> jsval \<Rightarrow> res \<Rightarrow> res \<times> (exn + unit)" where
  "res_json e payload r =
     (let r1 = r\<lparr> jsonCalls := jsonCalls r + 1 \<rparr>;
          written = r1\<lparr> headersSent := True, sent := sent r @ [(statusCode r, payload)] \<rparr>
      in if headersSent r
         then (r1\<lparr> lateWrites := lateWrites r + 1 \<rparr>,
               Inl (ErrorObj ''Cannot set headers after they are sent to the client''))
         else (case json_fault e (jsonCalls r) of
                 NoFault \<Rightarrow> (written, Inr ())
               | ThrowsBeforeSend x \<Rightarrow> (r1, Inl x)
               | ThrowsAfterSend x \<Rightarrow> (written, Inl x)))"

definition response_ok :: "nat \<Rightarrow> bool" where
  "response_ok status = (200 \<le> status \<and> status \<le> 299)"

definition best_move_url :: "string \<Rightarrow> int \<Rightarrow> string" where
  "best_move_url fen depth =
     ''https://stockfish.online/api/s/v2.php?fen='' @ encodeURIComponent fen
       @ ''&depth='' @ show_int depth"

text \<open>
  \<^verbatim>\<open>getBestMove\<close>: one request; the inner \<^verbatim>\<open>catch\<close> logs and throws the error again,
  so every failure is the \<open>Inl\<close> of the result.
\<close>

definition getBestMove :: "env \<Rightarrow> string \<Rightarrow> int \<Rightarrow> exn + jsval" where
  "getBestMove e fen depth =
     (case fetch e (best_move_url fen depth) of
        Rejects x \<Rightarrow> Inl x
      | Response status statusText b \<Rightarrow>
          if \<not> response_ok status
          then Inl (ErrorObj (''Stockfish API returned '' @ show_nat status @ '': '' @ statusText))
          else (case b of
                  NotJson x \<Rightarrow> Inl x
                | JsonBody data \<Rightarrow>
                    (case responseSchema_parse data of
                       None \<Rightarrow> Inl (ErrorObj (zod_message e data))
                     | Some validatedData \<Rightarrow> Inr validatedData)))"

text \<open>
  The \<^verbatim>\<open>try\<close> block of the handler: the response object after it, the URLs fetched, and
  whether it completed or threw.
\<close>

definition try_block ::
  "env \<Rightarrow> (string \<times> jsval) list \<Rightarrow> res \<Rightarrow> res \<times> string list \<times> (exn + unit)" where
  "try_block e query r =
     (case inputSchema_safeParse query of
        None \<Rightarrow>
          (let (r', result) =
                 res_json e
                   (JObj [(''error'',
                           JStr (''Invalid request parameters, '' @ JSON_stringify e (JObj query)))])
                   (res_status 400 r)
           in (r', [], result))
      | Some (fen, depth) \<Rightarrow>
          (case parseInt depth of
             None \<Rightarrow>
               (let (r', result) =
                      res_json e
                        (JObj [(''error'',
                                JStr (''Invalid depth, must be a number between 1 and 12, got ''
                                      @ depth))])
                        (res_status 400 r)
                in (r', [], result))
           | Some depthNumber \<Rightarrow>
               if depthNumber < 1 \<or> depthNumber > 12
               then (let (r', result) =
                           res_json e
                             (JObj [(''error'',
                                     JStr (''Invalid depth, must be a number between 1 and 12, got ''
                                           @ depth))])
                             (res_status 400 r)
                     in (r', [], result))
               else (case getBestMove e fen depthNumber of
                       Inl x \<Rightarrow> (r, [best_move_url fen depthNumber], Inl x)
                     | Inr response \<Rightarrow>
                         (let (r', result) = res_json e response r
                          in (r', [best_move_url fen depthNumber], result)))))"

text \<open>\<^verbatim>\<open>error instanceof Error ? error.message : "Unknown error"\<close>\<close>

fun error_message :: "exn \<Rightarrow> string" where
  "error_message (ErrorObj m) = m"
| "error_message (Thrown v) = ''Unknown error''"

record outcome =
  final :: res
  fetched :: "string list"
  rejected :: "exn option"

text \<open>
  The handler of \<^verbatim>\<open>GET /best-move\<close> on a fresh response object: the \<^verbatim>\<open>try\<close> block, then
  the \<^verbatim>\<open>catch\<close> block when it threw. An error thrown inside \<^verbatim>\<open>catch\<close> leaves the handler,
  which is \<open>rejected\<close>.
\<close>

definition best_move_handler :: "env \<Rightarrow> (string \<times> jsval) list \<Rightarrow> outcome" where
  "best_move_handler e query =
     (let (r, urls, result) = try_block e query new_res
      in case result of
           Inr u \<Rightarrow> \<lparr> final = r, fetched = urls, rejected = None \<rparr>
         | Inl error \<Rightarrow>
             if \<not> headersSent r
             then (let (r', result') =
                         res_json e
                           (JObj [(''error'', JStr ''Internal server error''),
                                  (''message'', JStr (error_message error))])
                           (res_status 500 r)
                   in \<lparr> final = r', fetched = urls,
                        rejected = (case result' of Inl x \<Rightarrow> Some x | Inr u \<Rightarrow> None) \<rparr>)
             else \<lparr> final = r, fetched = urls, rejected = None \<rparr>)"

text \<open>An environment with a given upstream answer and a framework that never throws.\<close>

definition plain_env :: "fetch_outcome \<Rightarrow> env" where
  "plain_env answer =
     \<lparr> fetch = (\<lambda>url. answer), json_fault = (\<lambda>n. NoFault),
       zod_message = (\<lambda>data. ''invalid''), JSON_stringify = (\<lambda>v. ''{}'') \<rparr>"

definition start_position :: string where
  "start_position = ''rnbqkbnr/pppppppp/8/8/8/8/PPPPPPPP/RNBQKBNR w KQkq - 0 1''"

text \<open>
  Upstream bodies to run the handler on: the answer of the analysis service, which has a
  \<^verbatim>\<open>continuation\<close> beside the four fields; one with the four fields alone; one that
  spells the move field \<^verbatim>\<open>bestMove\<close>; one whose evaluation overflowed to \<^verbatim>\<open>Infinity\<close>;
  one without the move field.
\<close>

definition analysis_body :: jsval where
  "analysis_body =
     JObj [(''success'', JBool True),
           (''evaluation'', JNum (Fin (13 / 100))),
           (''mate'', JNull),
           (''bestmove'', JStr ''bestmove e2e4 ponder e7e5''),
           (''continuation'', JStr ''e2e4 e7e5'')]"

definition exact_body :: jsval where
  "exact_body =
     JObj [(''success'', JBool True),
           (''bestmove'', JStr ''bestmove e2e4 ponder e7e5''),
           (''evaluation'', JNum (Fin (13 / 100))),
           (''mate'', JNull)]"

definition camel_body :: jsval where
  "camel_body =
     JObj [(''success'', JBool True),
           (''evaluation'', JNum (Fin (13 / 100))),
           (''bestMove'', JStr ''e2e4''),
           (''mate'', JNull)]"

definition overflow_body :: jsval where
  "overflow_body =
     JObj [(''success'', JBool True),
           (''evaluation'', JNum PosInf),
           (''bestmove'', JStr ''e2e4''),
           (''mate'', JNull)]"

definition partial_body :: jsval where
  "partial_body =
     JObj [(''success'', JBool True), (''evaluation'', JNum (Fin (13 / 100))), (''mate'', JNull)]"

text \<open>A framework whose \<^verbatim>\<open>res.json\<close> throws once the response is written.\<close>

definition flaky_env :: env where
  "flaky_env =
     \<lparr> fetch = (\<lambda>url. Response 200 ''OK'' (JsonBody analysis_body)),
       json_fault = (\<lambda>n. ThrowsAfterSend (ErrorObj ''write after end'')),
       zod_message = (\<lambda>data. ''invalid''), JSON_stringify = (\<lambda>v. ''{}'') \<rparr>"

text \<open>
  The discipline of the response object: no write came after a response was sent, and
  the headers are out exactly when one response is written.
\<close>

definition disciplined :: "res \<Rightarrow> bool" where
  "disciplined r =
     (lateWrites r = 0 \<and> (if headersSent r then length (sent r) = 1 else sent r = []))"

section \<open>Properties of the converter\<close>

lemma map_of_js_set: "map_of (js_set k v obj) = (map_of obj)(k \<mapsto> v)"
  by (induction obj) (auto simp: fun_eq_iff)

lemma js_get_js_set_same: "js_get (js_set k v obj) k = v"
  by (simp add: js_get_def map_of_js_set)

lemma js_get_js_set_other: "k' \<noteq> k \<Longrightarrow> js_get (js_set k v obj) k' = js_get obj k'"
  by (simp add: js_get_def map_of_js_set)

lemma keys_js_set: "fst ` set (js_set k v obj) = insert k (fst ` set obj)"
  by (induction obj) auto

lemma js_set_fresh: "k \<notin> fst ` set obj \<Longrightarrow> js_set k v obj = obj @ [(k, v)]"
  by (induction obj) auto

lemma queryParams_GET_other:
  "key \<notin> fst ` set entries \<Longrightarrow>
   map_of (queryParams_GET entries qp) key = map_of qp key"
  by (induction entries qp rule: queryParams_GET.induct) (auto simp: map_of_js_set)

lemma queryParams_GET_entry:
  "distinct (map fst entries) \<Longrightarrow> (key, ObjSchema value) \<in> set entries \<Longrightarrow>
   map_of (queryParams_GET entries qp) key =
     Some (JObj (js_set ''required'' (JBool (\<not> has_default value)) value))"
  by (induction entries qp rule: queryParams_GET.induct)
     (auto simp: queryParams_GET_other map_of_js_set)

lemma queryParams_GET_keys:
  "fst ` set (queryParams_GET entries qp) =
     fst ` set qp \<union> {key. \<exists>value. (key, ObjSchema value) \<in> set entries}"
  by (induction entries qp rule: queryParams_GET.induct) (auto simp: keys_js_set)

lemma queryParams_of_GET:
  "queryParams_of (inputSchemaToX402GET s) =
     (case properties s of None \<Rightarrow> [] | Some props \<Rightarrow> queryParams_GET props [])"
  by (simp add: queryParams_of_def inputSchemaToX402GET_def js_get_def)

lemma js_in_keys: "js_in k obj \<longleftrightarrow> k \<in> fst ` set obj"
  by (simp add: js_in_def map_of_eq_None_iff)

lemma js_get_absent: "\<not> js_in k obj \<Longrightarrow> js_get obj k = JUndefined"
  by (simp add: js_in_def js_get_def)

lemma has_default_iff:
  "has_default value \<longleftrightarrow> (\<exists>d. map_of value ''default'' = Some d \<and> d \<noteq> JUndefined)"
  by (auto simp: has_default_def js_in_def js_get_def)

lemma queryParams_legacy_other:
  "key \<notin> fst ` set entries \<Longrightarrow>
   map_of (queryParams_legacy num entries qp) key = map_of qp key"
  by (induction num entries qp rule: queryParams_legacy.induct)
     (auto simp: map_of_js_set Let_def)

lemma queryParams_legacy_entry:
  "distinct (map fst entries) \<Longrightarrow> (key, ObjSchema prop) \<in> set entries \<Longrightarrow>
   map_of (queryParams_legacy num entries qp) key =
     Some (js_or (js_or (js_get prop ''description'') (JStr []))
                 (JStr (ToString num (js_or (js_get prop ''type'') (JStr ''string''))
                        @ '' parameter'')))"
  by (induction num entries qp rule: queryParams_legacy.induct)
     (auto simp: queryParams_legacy_other map_of_js_set Let_def)

lemma queryParams_of_legacy:
  "queryParams_of (inputSchemaToX402 num s) =
     (case properties s of None \<Rightarrow> [] | Some props \<Rightarrow> queryParams_legacy num props [])"
  by (simp add: queryParams_of_def inputSchemaToX402_def js_get_def)

text \<open>
  Claim C1. In the descriptor of \<^verbatim>\<open>inputSchemaToX402GET\<close>, every top-level field whose
  schema holds a default, whatever its value (the empty string and zero included), has
  \<^verbatim>\<open>required: false\<close>, and every field whose schema holds none has \<^verbatim>\<open>required: true\<close>.
\<close>

theorem required_follows_default:
  assumes "properties s = Some props"
      and "distinct (map fst props)"
      and "(key, ObjSchema value) \<in> set props"
  shows "\<exists>entry. map_of (queryParams_of (inputSchemaToX402GET s)) key = Some (JObj entry)
           \<and> (\<forall>d. map_of value ''default'' = Some d \<and> d \<noteq> JUndefined
                  \<longrightarrow> js_get entry ''required'' = JBool False)
           \<and> (map_of value ''default'' = None \<longrightarrow> js_get entry ''required'' = JBool True)"
proof -
  let ?entry = "js_set ''required'' (JBool (\<not> has_default value)) value"
  have "map_of (queryParams_of (inputSchemaToX402GET s)) key = Some (JObj ?entry)"
    using assms by (simp add: queryParams_of_GET queryParams_GET_entry)
  moreover have "js_get ?entry ''required'' = JBool (\<not> has_default value)"
    by (rule js_get_js_set_same)
  ultimately show ?thesis
    by (auto simp: has_default_iff)
qed

text \<open>The field \<^verbatim>\<open>region\<close> with the default \<^verbatim>\<open>""\<close> is not required.\<close>

theorem required_follows_default_witness:
  "\<exists>entry. map_of (queryParams_of (inputSchemaToX402GET shirt_schema)) ''region''
              = Some (JObj entry)
           \<and> js_get entry ''required'' = JBool False"
  using required_follows_default [of shirt_schema "the (properties shirt_schema)" "''region''"
          "[(''default'', JStr []), (''type'', JStr ''string'')]"]
  by (simp add: shirt_schema_def)

text \<open>
  Claim C7, as the code has it. The fallbacks belong to the earlier converter
  \<^verbatim>\<open>inputSchemaToX402\<close>: a field with neither description nor type is described as
  \<^verbatim>\<open>"string parameter"\<close>, a field with type \<open>t\<close> and no description as \<open>t\<close> followed by
  \<^verbatim>\<open>" parameter"\<close>, and a field with a description by that description.
  \<^verbatim>\<open>inputSchemaToX402GET\<close> has no fallback: its entry carries the type and the description
  of the field as they are, undefined when the field declares none.
\<close>

theorem type_and_description_fallbacks:
  assumes "properties s = Some props"
      and "distinct (map fst props)"
      and "(key, ObjSchema prop) \<in> set props"
  shows "(\<not> js_in ''description'' prop \<and> \<not> js_in ''type'' prop \<longrightarrow>
            map_of (queryParams_of (inputSchemaToX402 num s)) key
              = Some (JStr ''string parameter''))
       \<and> (\<forall>t. \<not> js_in ''description'' prop \<and> js_get prop ''type'' = JStr t \<and> t \<noteq> [] \<longrightarrow>
            map_of (queryParams_of (inputSchemaToX402 num s)) key
              = Some (JStr (t @ '' parameter'')))
       \<and> (\<forall>d. js_get prop ''description'' = JStr d \<and> d \<noteq> [] \<longrightarrow>
            map_of (queryParams_of (inputSchemaToX402 num s)) key = Some (JStr d))
       \<and> (\<exists>entry. map_of (queryParams_of (inputSchemaToX402GET s)) key = Some (JObj entry)
            \<and> js_get entry ''type'' = js_get prop ''type''
            \<and> js_get entry ''description'' = js_get prop ''description'')"
proof -
  have legacy: "map_of (queryParams_of (inputSchemaToX402 num s)) key =
     Some (js_or (js_or (js_get prop ''description'') (JStr []))
                 (JStr (ToString num (js_or (js_get prop ''type'') (JStr ''string''))
                        @ '' parameter'')))"
    using assms by (simp add: queryParams_of_legacy queryParams_legacy_entry)
  have current: "map_of (queryParams_of (inputSchemaToX402GET s)) key =
     Some (JObj (js_set ''required'' (JBool (\<not> has_default prop)) prop))"
    using assms by (simp add: queryParams_of_GET queryParams_GET_entry)
  show ?thesis
    unfolding legacy current
    by (auto simp: js_or_def js_get_absent js_get_js_set_other)
qed

theorem type_and_description_fallbacks_witness:
  "map_of (queryParams_of (inputSchemaToX402 (\<lambda>n. ''0'') shirt_schema)) ''anything''
     = Some (JStr ''string parameter'')"
  using type_and_description_fallbacks
          [of shirt_schema "the (properties shirt_schema)" "''anything''" "[]" "\<lambda>n. ''0''"]
  by (simp add: shirt_schema_def js_in_def)

text \<open>
  Against C7 as stated: for a field that declares nothing, \<^verbatim>\<open>inputSchemaToX402GET\<close>
  gives an entry with the \<^verbatim>\<open>required\<close> flag alone, no type and no description.
\<close>

theorem no_fallbacks_in_GET_converter:
  "map_of (queryParams_of (inputSchemaToX402GET shirt_schema)) ''anything''
     = Some (JObj [(''required'', JBool True)])"
  by (simp add: shirt_schema_def inputSchemaToX402GET_def queryParams_of_def js_get_def
        has_default_def js_in_def)

text \<open>
  Claim C10, as the code has it. The keys of \<^verbatim>\<open>queryParams\<close> are the names of the
  top-level properties whose schema is an object. Each entry is the schema of its field
  with every member other than \<^verbatim>\<open>required\<close> unchanged and with a boolean \<^verbatim>\<open>required\<close>;
  for a field whose schema has no \<^verbatim>\<open>required\<close> member of its own, the entry is that schema
  with exactly the flag added.
\<close>

theorem queryParams_keys_and_entries:
  assumes "properties s = Some props"
      and "distinct (map fst props)"
  shows "fst ` set (queryParams_of (inputSchemaToX402GET s))
           = {key. \<exists>value. (key, ObjSchema value) \<in> set props}
       \<and> (\<forall>key value. (key, ObjSchema value) \<in> set props \<longrightarrow>
            (\<exists>entry. map_of (queryParams_of (inputSchemaToX402GET s)) key = Some (JObj entry)
               \<and> (\<forall>f. f \<noteq> ''required'' \<longrightarrow> map_of entry f = map_of value f)
               \<and> (\<exists>b. map_of entry ''required'' = Some (JBool b))
               \<and> (\<not> js_in ''required'' value \<longrightarrow>
                    entry = value @ [(''required'', JBool (\<not> has_default value))])))"
proof (intro conjI allI impI)
  show "fst ` set (queryParams_of (inputSchemaToX402GET s))
           = {key. \<exists>value. (key, ObjSchema value) \<in> set props}"
    using assms by (simp add: queryParams_of_GET queryParams_GET_keys)
next
  fix key val
  assume "(key, ObjSchema val) \<in> set props"
  then have "map_of (queryParams_of (inputSchemaToX402GET s)) key =
     Some (JObj (js_set ''required'' (JBool (\<not> has_default val)) val))"
    using assms by (simp add: queryParams_of_GET queryParams_GET_entry)
  then show "\<exists>entry. map_of (queryParams_of (inputSchemaToX402GET s)) key = Some (JObj entry)
               \<and> (\<forall>f. f \<noteq> ''required'' \<longrightarrow> map_of entry f = map_of val f)
               \<and> (\<exists>b. map_of entry ''required'' = Some (JBool b))
               \<and> (\<not> js_in ''required'' val \<longrightarrow>
                    entry = val @ [(''required'', JBool (\<not> has_default val))])"
    by (auto simp: map_of_js_set js_in_keys js_set_fresh)
qed

theorem queryParams_keys_and_entries_witness:
  "fst ` set (queryParams_of (inputSchemaToX402GET position_query_schema)) = {''fen'', ''depth''}
   \<and> map_of (queryParams_of (inputSchemaToX402GET position_query_schema)) ''fen''
       = Some (JObj [(''type'', JStr ''string''),
                     (''description'', JStr ''FEN of the current chess position''),
                     (''required'', JBool True)])"
  using queryParams_keys_and_entries
          [of position_query_schema "the (properties position_query_schema)"]
  by (simp add: position_query_schema_def inputSchemaToX402GET_def queryParams_of_def
        js_get_def has_default_def js_in_def insert_commute)

text \<open>
  Against C10 as stated: the schema of a nested object has a \<^verbatim>\<open>required\<close> list of its
  own, and the converter puts the flag in its place; no member is added and one is changed.
\<close>

theorem nested_required_overwritten:
  "map_of (queryParams_of (inputSchemaToX402GET shirt_schema)) ''address_to''
     = Some (JObj [(''type'', JStr ''object''),
              (''properties'', JObj [(''city'', JObj [(''type'', JStr ''string'')])]),
              (''required'', JBool True)])
   \<and> map_of (the (properties shirt_schema)) ''address_to''
     = Some (ObjSchema [(''type'', JStr ''object''),
              (''properties'', JObj [(''city'', JObj [(''type'', JStr ''string'')])]),
              (''required'', JArr [JStr ''city''])])"
  by (simp add: shirt_schema_def inputSchemaToX402GET_def queryParams_of_def js_get_def
        has_default_def js_in_def)

section \<open>Properties of the handler\<close>

lemmas handler_defs =
  best_move_handler_def try_block_def res_json_def res_status_def new_res_def

lemmas parseInt_defs = parseInt_def is_js_whitespace_def is_radix_digit_def digit_value_def
  the_digit_def

lemma handler_invalid_query:
  assumes "json_fault e 0 = NoFault" and "inputSchema_safeParse query = None"
  shows "sent (final (best_move_handler e query)) =
           [(400, JObj [(''error'',
               JStr (''Invalid request parameters, '' @ JSON_stringify e (JObj query)))])]
         \<and> fetched (best_move_handler e query) = []"
  using assms by (simp add: handler_defs)

lemma handler_invalid_depth:
  assumes "json_fault e 0 = NoFault" and "inputSchema_safeParse query = Some (fen, depth)"
      and "\<forall>n. parseInt depth = Some n \<longrightarrow> n < 1 \<or> n > 12"
  shows "sent (final (best_move_handler e query)) =
           [(400, JObj [(''error'',
               JStr (''Invalid depth, must be a number between 1 and 12, got '' @ depth))])]
         \<and> fetched (best_move_handler e query) = []"
  using assms by (auto simp: handler_defs split: option.splits)

lemma handler_upstream:
  assumes "json_fault e 0 = NoFault" and "inputSchema_safeParse query = Some (fen, depth)"
      and "parseInt depth = Some n" and "1 \<le> n" and "n \<le> 12"
  shows "sent (final (best_move_handler e query)) =
           (case getBestMove e fen n of
              Inr validatedData \<Rightarrow> [(200, validatedData)]
            | Inl x \<Rightarrow> [(500, JObj [(''error'', JStr ''Internal server error''),
                                   (''message'', JStr (error_message x))])])
         \<and> fetched (best_move_handler e query) = [best_move_url fen n]"
  using assms by (auto simp: handler_defs split: sum.splits)

lemma inputSchema_safeParse_iff:
  "inputSchema_safeParse query = Some (fen, depth) \<longleftrightarrow>
     js_get query ''fen'' = JStr fen
     \<and> (js_get query ''depth'' = JUndefined \<and> depth = ''10''
          \<or> js_get query ''depth'' = JStr depth \<and> 1 \<le> length depth \<and> length depth \<le> 2)"
  by (auto simp: inputSchema_safeParse_def split: jsval.splits)

lemma parseInt_examples:
  "parseInt ''0'' = Some 0" "parseInt ''13'' = Some 13" "parseInt ''abc'' = None"
  "parseInt ''1a'' = Some 1" "parseInt '' 7'' = Some 7" "parseInt ''-1'' = Some (- 1)"
  "parseInt ''0x'' = None" "parseInt ''012'' = Some 12"
  by (simp_all add: parseInt_defs)

lemma safeParse_depth:
  "inputSchema_safeParse query = Some (fen, depth) \<Longrightarrow>
   js_get query ''depth'' = JUndefined \<or> js_get query ''depth'' = JStr depth"
  by (auto simp: inputSchema_safeParse_def split: jsval.splits if_splits)

lemma getBestMove_not_ok:
  "fetch e (best_move_url fen n) = Response status statusText b \<Longrightarrow> \<not> response_ok status \<Longrightarrow>
   getBestMove e fen n =
     Inl (ErrorObj (''Stockfish API returned '' @ show_nat status @ '': '' @ statusText))"
  by (simp add: getBestMove_def)

lemma getBestMove_json:
  "fetch e (best_move_url fen n) = Response status statusText (JsonBody data) \<Longrightarrow>
   response_ok status \<Longrightarrow>
   getBestMove e fen n =
     (case responseSchema_parse data of
        None \<Rightarrow> Inl (ErrorObj (zod_message e data))
      | Some validatedData \<Rightarrow> Inr validatedData)"
  by (simp add: getBestMove_def)

lemma is_number_iff: "is_number v \<longleftrightarrow> (\<exists>x. v = JNum (Fin x))"
  by (cases v rule: is_number.cases) auto

lemma is_string_iff: "is_string v \<longleftrightarrow> (\<exists>s. v = JStr s)"
  by (cases v rule: is_string.cases) auto

lemma responseSchema_parse_object:
  "responseSchema_parse (JObj kvs) =
     (if js_get kvs ''success'' = JBool True
         \<and> is_number (js_get kvs ''evaluation'')
         \<and> is_string (js_get kvs ''bestmove'')
         \<and> (is_number (js_get kvs ''mate'') \<or> js_get kvs ''mate'' = JNull)
      then Some (JObj [(''success'', js_get kvs ''success''),
                       (''evaluation'', js_get kvs ''evaluation''),
                       (''bestmove'', js_get kvs ''bestmove''),
                       (''mate'', js_get kvs ''mate'')])
      else None)"
  by (simp add: responseSchema_parse_def)

lemma responseSchema_parse_Some:
  "responseSchema_parse data = Some v \<Longrightarrow>
   \<exists>kvs. data = JObj kvs \<and>
         v = JObj [(''success'', js_get kvs ''success''),
                   (''evaluation'', js_get kvs ''evaluation''),
                   (''bestmove'', js_get kvs ''bestmove''),
                   (''mate'', js_get kvs ''mate'')]"
  by (cases data) (auto simp: responseSchema_parse_def split: if_splits)

lemma js_get_present: "k \<in> fst ` set kvs \<Longrightarrow> map_of kvs k = Some (js_get kvs k)"
  by (auto simp: js_get_def map_of_eq_None_iff split: option.splits)

lemma disciplined_new:
  "disciplined (res_status code new_res) \<and> \<not> headersSent (res_status code new_res)"
  by (simp add: disciplined_def res_status_def new_res_def)

lemma disciplined_new_res: "disciplined new_res \<and> \<not> headersSent new_res"
  by (simp add: disciplined_def new_res_def)

lemma disciplined_status: "disciplined (res_status code r) = disciplined r"
  by (simp add: disciplined_def res_status_def)

lemma headersSent_status: "headersSent (res_status code r) = headersSent r"
  by (simp add: res_status_def)

lemma res_json_disciplined:
  "disciplined r \<Longrightarrow> \<not> headersSent r \<Longrightarrow> disciplined (fst (res_json e payload r))"
  by (auto simp: disciplined_def res_json_def Let_def split: fault.splits)

lemma res_json_disciplined_pair:
  "res_json e payload r = (r', x) \<Longrightarrow> disciplined r \<Longrightarrow> \<not> headersSent r \<Longrightarrow> disciplined r'"
  using res_json_disciplined [of r e payload] by simp

lemma try_block_disciplined: "disciplined (fst (try_block e query new_res))"
  using disciplined_new [of 400] disciplined_new_res
  by (auto simp: try_block_def split: option.splits sum.splits prod.splits
           elim: res_json_disciplined_pair)

text \<open>
  What the depth guard does achieve. Let \<^verbatim>\<open>res.json\<close> return normally. A request whose
  \<^verbatim>\<open>depth\<close> parameter is present and is not a string that \<^verbatim>\<open>parseInt\<close> reads as an
  integer from 1 to 12 is answered with status 400, and nothing is fetched from the
  upstream. That covers \<^verbatim>\<open>"0"\<close>, \<^verbatim>\<open>"13"\<close> and every string in which no digit follows
  the optional white space and sign, such as \<^verbatim>\<open>"abc"\<close>.
\<close>

lemma unparsable_depth_rejected:
  assumes "json_fault e 0 = NoFault"
      and "js_get query ''depth'' \<noteq> JUndefined"
      and "\<nexists>s n. js_get query ''depth'' = JStr s \<and> parseInt s = Some n \<and> 1 \<le> n \<and> n \<le> 12"
  shows "(\<exists>payload. sent (final (best_move_handler e query)) = [(400, payload)])
         \<and> fetched (best_move_handler e query) = []"
proof (cases "inputSchema_safeParse query")
  case None
  with assms(1) show ?thesis by (simp add: handler_invalid_query)
next
  case (Some p)
  obtain fen depth where p: "p = (fen, depth)" by (cases p)
  with Some have parsed: "inputSchema_safeParse query = Some (fen, depth)" by simp
  with assms(2) have "js_get query ''depth'' = JStr depth"
    using safeParse_depth by blast
  with assms(3) have "\<forall>n. parseInt depth = Some n \<longrightarrow> n < 1 \<or> n > 12"
    by (metis not_le)
  with assms(1) parsed show ?thesis by (simp add: handler_invalid_depth)
qed

lemma unparsable_depth_rejected_example:
  "(\<exists>payload. sent (final (best_move_handler (plain_env (Response 200 ''OK'' (JsonBody analysis_body)))
       [(''fen'', JStr start_position), (''depth'', JStr ''13'')])) = [(400, payload)])
   \<and> fetched (best_move_handler (plain_env (Response 200 ''OK'' (JsonBody analysis_body)))
       [(''fen'', JStr start_position), (''depth'', JStr ''13'')]) = []"
  by (rule unparsable_depth_rejected) (simp_all add: plain_env_def js_get_def parseInt_defs)

text \<open>
  Claim C2. A request whose depth is not a number from 1 to 12, every non-numeric string
  included, is to be answered with status 400 without a call of the upstream; the test
  \<^verbatim>\<open>isNaN(depthNumber)\<close> and the message \<^verbatim>\<open>must be a number between 1 and 12\<close> of the
  handler say so. The handler misses the strings that \<^verbatim>\<open>parseInt\<close> reads by their prefix:
  \<^verbatim>\<open>"1a"\<close> is no number, yet the upstream is called with depth 1 and the answer is 200.
\<close>

theorem numeric_prefix_depth_accepted:
  "map fst (sent (final (best_move_handler (plain_env (Response 200 ''OK'' (JsonBody analysis_body)))
       [(''fen'', JStr start_position), (''depth'', JStr ''1a'')]))) = [200]
   \<and> fetched (best_move_handler (plain_env (Response 200 ''OK'' (JsonBody analysis_body)))
       [(''fen'', JStr start_position), (''depth'', JStr ''1a'')]) = [best_move_url start_position 1]"
  by (simp add: handler_defs plain_env_def inputSchema_safeParse_def js_get_def parseInt_defs
        getBestMove_def response_ok_def responseSchema_parse_def analysis_body_def)

text \<open>
  Claim C3. Let \<^verbatim>\<open>res.json\<close> return normally and the request pass validation. When the
  upstream answers 200 with a JSON object that has no \<^verbatim>\<open>bestmove\<close> field, the handler
  responds with status 500.
\<close>

theorem missing_bestmove_gives_500:
  assumes "json_fault e 0 = NoFault"
      and "inputSchema_safeParse query = Some (fen, depth)"
      and "parseInt depth = Some n" and "1 \<le> n" and "n \<le> 12"
      and "fetch e (best_move_url fen n) = Response 200 statusText (JsonBody (JObj kvs))"
      and "\<not> js_in ''bestmove'' kvs"
  shows "\<exists>payload. sent (final (best_move_handler e query)) = [(500, payload)]"
proof -
  have "responseSchema_parse (JObj kvs) = None"
    using assms(7) by (simp add: responseSchema_parse_object js_get_absent)
  then have "getBestMove e fen n = Inl (ErrorObj (zod_message e (JObj kvs)))"
    using assms(6) by (simp add: getBestMove_json response_ok_def)
  then show ?thesis
    using handler_upstream [OF assms(1-5)] by simp
qed

theorem missing_bestmove_gives_500_witness:
  "\<exists>payload. sent (final (best_move_handler (plain_env (Response 200 ''OK'' (JsonBody partial_body)))
       [(''fen'', JStr start_position), (''depth'', JStr ''12'')])) = [(500, payload)]"
  by (rule missing_bestmove_gives_500
        [where fen = start_position and depth = "''12''" and n = 12 and statusText = "''OK''"
           and kvs = "[(''success'', JBool True), (''evaluation'', JNum (Fin (13 / 100))),
                       (''mate'', JNull)]"])
     (simp_all add: plain_env_def partial_body_def inputSchema_safeParse_def js_get_def js_in_def
        parseInt_defs)

text \<open>
  Claim C4. Let \<^verbatim>\<open>res.json\<close> return normally and the request pass validation. When the
  upstream answers with a status outside 200 to 299, the handler responds with status 500
  and a message that holds the upstream status in decimal, followed by the status text.
\<close>

theorem upstream_status_in_message:
  assumes "json_fault e 0 = NoFault"
      and "inputSchema_safeParse query = Some (fen, depth)"
      and "parseInt depth = Some n" and "1 \<le> n" and "n \<le> 12"
      and "fetch e (best_move_url fen n) = Response status statusText b"
      and "\<not> response_ok status"
  shows "sent (final (best_move_handler e query)) =
           [(500, JObj [(''error'', JStr ''Internal server error''),
                        (''message'', JStr (''Stockfish API returned '' @ show_nat status
                                            @ '': '' @ statusText))])]"
  using handler_upstream [OF assms(1-5)] getBestMove_not_ok [OF assms(6,7)] by simp

theorem upstream_status_in_message_witness:
  "sent (final (best_move_handler
       (plain_env (Response 503 ''Service Unavailable'' (NotJson (ErrorObj ''Unexpected token''))))
       [(''fen'', JStr start_position)])) =
     [(500, JObj [(''error'', JStr ''Internal server error''),
                  (''message'', JStr ''Stockfish API returned 503: Service Unavailable'')])]"
  using upstream_status_in_message
          [of "plain_env (Response 503 ''Service Unavailable'' (NotJson (ErrorObj ''Unexpected token'')))"
              "[(''fen'', JStr start_position)]" start_position "''10''" 10 503
              "''Service Unavailable''" "NotJson (ErrorObj ''Unexpected token'')"]
  by (simp add: plain_env_def inputSchema_safeParse_def js_get_def parseInt_defs response_ok_def
        show_nat.simps digit_char_def)

text \<open>
  Claim C5, as the code has it. Let \<^verbatim>\<open>res.json\<close> return normally. For a query that the
  input schema accepts (\<^verbatim>\<open>fen\<close> a string; \<^verbatim>\<open>depth\<close> absent or a string of one or two
  characters) and whose depth parses to an integer from 1 to 12, when the upstream answers
  in the 200 range with an object whose \<^verbatim>\<open>success\<close> is true, \<^verbatim>\<open>evaluation\<close> a finite
  number, \<^verbatim>\<open>bestmove\<close> a string and \<^verbatim>\<open>mate\<close> null or a finite number, the handler
  responds with status 200 and a payload carrying these four fields with the values of the
  upstream; when the upstream object has no other field, the payload is that same object.
\<close>

theorem analysis_passed_through:
  assumes "json_fault e 0 = NoFault"
      and "inputSchema_safeParse query = Some (fen, depth)"
      and "parseInt depth = Some n" and "1 \<le> n" and "n \<le> 12"
      and "fetch e (best_move_url fen n) = Response status statusText (JsonBody (JObj kvs))"
      and "response_ok status"
      and "js_get kvs ''success'' = JBool True"
      and "js_get kvs ''evaluation'' = JNum (Fin x)"
      and "js_get kvs ''bestmove'' = JStr s"
      and "js_get kvs ''mate'' = JNull \<or> js_get kvs ''mate'' = JNum (Fin m)"
  shows "\<exists>payload. sent (final (best_move_handler e query)) = [(200, JObj payload)]
           \<and> js_get payload ''success'' = js_get kvs ''success''
           \<and> js_get payload ''evaluation'' = js_get kvs ''evaluation''
           \<and> js_get payload ''bestmove'' = js_get kvs ''bestmove''
           \<and> js_get payload ''mate'' = js_get kvs ''mate''
           \<and> (fst ` set kvs = {''success'', ''evaluation'', ''bestmove'', ''mate''}
                \<longrightarrow> map_of payload = map_of kvs)"
proof -
  let ?payload = "[(''success'', js_get kvs ''success''),
                   (''evaluation'', js_get kvs ''evaluation''),
                   (''bestmove'', js_get kvs ''bestmove''),
                   (''mate'', js_get kvs ''mate'')]"
  have "responseSchema_parse (JObj kvs) = Some (JObj ?payload)"
    using assms(8-11) by (auto simp: responseSchema_parse_object)
  then have "getBestMove e fen n = Inr (JObj ?payload)"
    using assms(6,7) by (simp add: getBestMove_json)
  then have sent: "sent (final (best_move_handler e query)) = [(200, JObj ?payload)]"
    using handler_upstream [OF assms(1-5)] by simp
  have same: "map_of ?payload = map_of kvs"
    if keys: "fst ` set kvs = {''success'', ''evaluation'', ''bestmove'', ''mate''}"
  proof
    fix k
    show "map_of ?payload k = map_of kvs k"
    proof (cases "k \<in> fst ` set kvs")
      case True
      then show ?thesis
        using js_get_present [OF True] keys by auto
    next
      case False
      then have "map_of kvs k = None" by (simp add: map_of_eq_None_iff)
      with False keys show ?thesis by auto
    qed
  qed
  show ?thesis
    using sent same by (auto simp: js_get_def)
qed

theorem analysis_passed_through_witness:
  "\<exists>payload. sent (final (best_move_handler (plain_env (Response 200 ''OK'' (JsonBody exact_body)))
        [(''fen'', JStr start_position), (''depth'', JStr ''12'')])) = [(200, JObj payload)]
     \<and> map_of payload = map_of [(''success'', JBool True),
           (''bestmove'', JStr ''bestmove e2e4 ponder e7e5''),
           (''evaluation'', JNum (Fin (13 / 100))),
           (''mate'', JNull)]"
proof -
  let ?kvs = "[(''success'', JBool True),
               (''bestmove'', JStr ''bestmove e2e4 ponder e7e5''),
               (''evaluation'', JNum (Fin (13 / 100))),
               (''mate'', JNull)]"
  have keys: "fst ` set ?kvs = {''success'', ''evaluation'', ''bestmove'', ''mate''}"
    by auto
  have "\<exists>payload. sent (final (best_move_handler
            (plain_env (Response 200 ''OK'' (JsonBody exact_body)))
            [(''fen'', JStr start_position), (''depth'', JStr ''12'')])) = [(200, JObj payload)]
           \<and> js_get payload ''success'' = js_get ?kvs ''success''
           \<and> js_get payload ''evaluation'' = js_get ?kvs ''evaluation''
           \<and> js_get payload ''bestmove'' = js_get ?kvs ''bestmove''
           \<and> js_get payload ''mate'' = js_get ?kvs ''mate''
           \<and> (fst ` set ?kvs = {''success'', ''evaluation'', ''bestmove'', ''mate''}
                \<longrightarrow> map_of payload = map_of ?kvs)"
    by (rule analysis_passed_through
          [where fen = start_position and depth = "''12''" and n = 12 and status = 200
             and statusText = "''OK''" and x = "13 / 100"
             and s = "''bestmove e2e4 ponder e7e5''" and m = 0])
       (simp_all add: plain_env_def exact_body_def inputSchema_safeParse_def js_get_def
          parseInt_defs response_ok_def)
  with keys show ?thesis by blast
qed

text \<open>
  Against C5 as stated: the depth \<^verbatim>\<open>"012"\<close> parses to 12, but the input schema allows
  two characters at most, so the answer is 400 whatever the upstream would return.
\<close>

theorem long_depth_rejected:
  "parseInt ''012'' = Some 12
   \<and> map fst (sent (final (best_move_handler (plain_env (Response 200 ''OK'' (JsonBody exact_body)))
        [(''fen'', JStr start_position), (''depth'', JStr ''012'')]))) = [400]"
  by (simp add: handler_defs plain_env_def inputSchema_safeParse_def js_get_def parseInt_defs)

text \<open>
  Why the numbers are finite: \<^verbatim>\<open>JSON.parse\<close> reads \<^verbatim>\<open>1e999\<close> as \<^verbatim>\<open>Infinity\<close>, which
  \<^verbatim>\<open>z.number()\<close> refuses, so such a body is answered with 500.
\<close>

lemma infinite_evaluation_rejected:
  "map fst (sent (final (best_move_handler
        (plain_env (Response 200 ''OK'' (JsonBody overflow_body)))
        [(''fen'', JStr start_position)]))) = [500]"
  by (simp add: handler_defs plain_env_def inputSchema_safeParse_def js_get_def parseInt_defs
        getBestMove_def response_ok_def responseSchema_parse_def overflow_body_def)

text \<open>
  Claim C6, as the code has it. Let \<^verbatim>\<open>res.json\<close> return normally and the request pass
  validation. When the upstream answers in the 200 range with JSON, the request succeeds
  with status 200 if the body is an object whose \<^verbatim>\<open>success\<close> is true, \<^verbatim>\<open>evaluation\<close> a
  finite number, \<^verbatim>\<open>bestmove\<close> (in lower case) a string and \<^verbatim>\<open>mate\<close> null or a finite
  number, whatever other fields it has; any other body makes it fail with status 500.
\<close>

theorem response_shape_decides:
  assumes "json_fault e 0 = NoFault"
      and "inputSchema_safeParse query = Some (fen, depth)"
      and "parseInt depth = Some n" and "1 \<le> n" and "n \<le> 12"
      and "fetch e (best_move_url fen n) = Response status statusText (JsonBody data)"
      and "response_ok status"
  shows "((\<exists>kvs x s. data = JObj kvs
             \<and> js_get kvs ''success'' = JBool True
             \<and> js_get kvs ''evaluation'' = JNum (Fin x)
             \<and> js_get kvs ''bestmove'' = JStr s
             \<and> (js_get kvs ''mate'' = JNull \<or> (\<exists>m. js_get kvs ''mate'' = JNum (Fin m))))
          \<longrightarrow> (\<exists>payload. sent (final (best_move_handler e query)) = [(200, payload)]))
       \<and> (\<not> (\<exists>kvs x s. data = JObj kvs
             \<and> js_get kvs ''success'' = JBool True
             \<and> js_get kvs ''evaluation'' = JNum (Fin x)
             \<and> js_get kvs ''bestmove'' = JStr s
             \<and> (js_get kvs ''mate'' = JNull \<or> (\<exists>m. js_get kvs ''mate'' = JNum (Fin m))))
          \<longrightarrow> (\<exists>payload. sent (final (best_move_handler e query)) = [(500, payload)]))"
proof -
  have sent: "sent (final (best_move_handler e query)) =
      (case responseSchema_parse data of
         None \<Rightarrow> [(500, JObj [(''error'', JStr ''Internal server error''),
                              (''message'', JStr (zod_message e data))])]
       | Some v \<Rightarrow> [(200, v)])"
    using handler_upstream [OF assms(1-5)] getBestMove_json [OF assms(6,7)]
    by (simp split: option.splits)
  show ?thesis
  proof (cases data)
    case (JObj kvs)
    then show ?thesis
      unfolding sent
      by (auto simp: responseSchema_parse_object is_number_iff is_string_iff)
  qed (simp_all add: sent responseSchema_parse_def)
qed

theorem response_shape_decides_witness:
  "\<exists>payload. sent (final (best_move_handler (plain_env (Response 200 ''OK'' (JsonBody exact_body)))
        [(''fen'', JStr start_position)])) = [(200, payload)]"
proof -
  have shape: "\<exists>kvs x s. exact_body = JObj kvs
             \<and> js_get kvs ''success'' = JBool True
             \<and> js_get kvs ''evaluation'' = JNum (Fin x)
             \<and> js_get kvs ''bestmove'' = JStr s
             \<and> (js_get kvs ''mate'' = JNull \<or> (\<exists>m. js_get kvs ''mate'' = JNum (Fin m)))"
    by (rule exI [of _ "[(''success'', JBool True),
                          (''bestmove'', JStr ''bestmove e2e4 ponder e7e5''),
                          (''evaluation'', JNum (Fin (13 / 100))),
                          (''mate'', JNull)]"],
        rule exI [of _ "13 / 100"], rule exI [of _ "''bestmove e2e4 ponder e7e5''"])
       (simp add: exact_body_def js_get_def)
  show ?thesis
    using shape
      response_shape_decides
          [of "plain_env (Response 200 ''OK'' (JsonBody exact_body))"
              "[(''fen'', JStr start_position)]"
              start_position "''10''" 10 200 "''OK''" exact_body, THEN conjunct1]
    by (simp add: plain_env_def inputSchema_safeParse_def js_get_def parseInt_defs
          response_ok_def)
qed

text \<open>
  Against C6 as stated: a body of exactly the claimed shape, with the field spelled
  \<^verbatim>\<open>bestMove\<close>, fails with 500, and a body with a fifth field \<^verbatim>\<open>continuation\<close>, which
  does not match the shape exactly, succeeds with 200.
\<close>

theorem shape_not_exact:
  "map fst (sent (final (best_move_handler (plain_env (Response 200 ''OK'' (JsonBody camel_body)))
        [(''fen'', JStr start_position)]))) = [500]
   \<and> map fst (sent (final (best_move_handler (plain_env (Response 200 ''OK'' (JsonBody analysis_body)))
        [(''fen'', JStr start_position)]))) = [200]"
  by (simp add: handler_defs plain_env_def inputSchema_safeParse_def js_get_def parseInt_defs
        getBestMove_def response_ok_def responseSchema_parse_def analysis_body_def camel_body_def)

text \<open>
  Claim C8. Whatever the request, the upstream and the behaviour of \<^verbatim>\<open>res.json\<close>
  (returning, throwing before it writes, throwing after it wrote), the handler never calls
  \<^verbatim>\<open>res.json\<close> once a response has been sent, and at most one response is written.
\<close>

theorem at_most_one_response:
  "lateWrites (final (best_move_handler e query)) = 0
   \<and> length (sent (final (best_move_handler e query))) \<le> 1"
proof -
  obtain r urls result where t: "try_block e query new_res = (r, urls, result)"
    by (cases "try_block e query new_res") auto
  have r: "disciplined r"
    using try_block_disciplined [of e query] t by simp
  have "disciplined (final (best_move_handler e query))"
  proof (cases result)
    case (Inr u)
    with t r show ?thesis by (simp add: best_move_handler_def)
  next
    case (Inl x)
    show ?thesis
    proof (cases "headersSent r")
      case True
      with t r Inl show ?thesis by (simp add: best_move_handler_def)
    next
      case False
      then have "disciplined (fst (res_json e
          (JObj [(''error'', JStr ''Internal server error''),
                 (''message'', JStr (error_message x))]) (res_status 500 r)))"
        using r by (intro res_json_disciplined) (simp_all add: disciplined_status headersSent_status)
      with t Inl False show ?thesis
        by (auto simp: best_move_handler_def split: prod.splits)
    qed
  qed
  then show ?thesis
    by (auto simp: disciplined_def split: if_splits)
qed

theorem at_most_one_response_witness:
  "lateWrites (final (best_move_handler flaky_env [(''fen'', JStr start_position)])) = 0
   \<and> length (sent (final (best_move_handler flaky_env [(''fen'', JStr start_position)]))) \<le> 1"
  by (rule at_most_one_response)

text \<open>
  There the success response is written, \<^verbatim>\<open>res.json\<close> throws, and the \<^verbatim>\<open>catch\<close> block
  makes no further call.
\<close>

lemma no_second_write_after_late_error:
  "map fst (sent (final (best_move_handler flaky_env [(''fen'', JStr start_position)]))) = [200]
   \<and> jsonCalls (final (best_move_handler flaky_env [(''fen'', JStr start_position)])) = 1"
  by (simp add: handler_defs flaky_env_def inputSchema_safeParse_def js_get_def parseInt_defs
        getBestMove_def response_ok_def responseSchema_parse_def analysis_body_def)

text \<open>
  Claim C9. Let \<^verbatim>\<open>res.json\<close> return normally and the request pass validation. For every
  upstream body in the 200 range that the response schema accepts, the payload sent with
  status 200 has the fields \<^verbatim>\<open>success\<close>, \<^verbatim>\<open>evaluation\<close>, \<^verbatim>\<open>bestmove\<close> and \<^verbatim>\<open>mate\<close> and no
  other: further fields of the upstream body are dropped.
\<close>

theorem payload_has_four_fields:
  assumes "json_fault e 0 = NoFault"
      and "inputSchema_safeParse query = Some (fen, depth)"
      and "parseInt depth = Some n" and "1 \<le> n" and "n \<le> 12"
      and "fetch e (best_move_url fen n) = Response status statusText (JsonBody data)"
      and "response_ok status"
      and "responseSchema_parse data \<noteq> None"
  shows "\<exists>payload. sent (final (best_move_handler e query)) = [(200, JObj payload)]
           \<and> map fst payload = [''success'', ''evaluation'', ''bestmove'', ''mate'']"
proof -
  obtain v where v: "responseSchema_parse data = Some v"
    using assms(8) by auto
  then obtain kvs where "v = JObj [(''success'', js_get kvs ''success''),
                   (''evaluation'', js_get kvs ''evaluation''),
                   (''bestmove'', js_get kvs ''bestmove''),
                   (''mate'', js_get kvs ''mate'')]"
    using responseSchema_parse_Some by blast
  moreover have "sent (final (best_move_handler e query)) = [(200, v)]"
    using handler_upstream [OF assms(1-5)] getBestMove_json [OF assms(6,7)] v by simp
  ultimately show ?thesis by simp
qed

theorem payload_has_four_fields_witness:
  "\<exists>payload. sent (final (best_move_handler (plain_env (Response 200 ''OK'' (JsonBody analysis_body)))
        [(''fen'', JStr start_position)])) = [(200, JObj payload)]
           \<and> map fst payload = [''success'', ''evaluation'', ''bestmove'', ''mate'']"
  by (rule payload_has_four_fields
        [where fen = start_position and depth = "''10''" and n = 10 and status = 200
           and statusText = "''OK''" and data = analysis_body])
     (simp_all add: plain_env_def analysis_body_def inputSchema_safeParse_def js_get_def
        parseInt_defs response_ok_def responseSchema_parse_def)

end
